theory Spec2Isabelle
  imports Main
begin

section \<open>Data model\<close>

text \<open>
  Times are JavaScript epoch milliseconds (\<open>Date.now()\<close>); every Firestore timestamp the
  handlers compare is built by \<open>Timestamp.fromDate\<close> from such a value and read back with
  \<open>toDate()\<close>, so a timestamp is the same number of milliseconds.
\<close>

type_synonym time = int

datatype role = Admin | UserRole | Moderator

datatype plan = Free | Developer | Professional | Enterprise

text \<open>
  The \<open>User\<close> interface of \<open>types/firebase.ts\<close>. A field declared with \<open>?\<close> is an option.
  The document id (\<open>id\<close> in the source) is attached by the store on every read.
\<close>

record user =
  docId :: string
  createdAt :: time
  updatedAt :: time
  email :: string
  displayName :: string
  photoURL :: "string option"
  role :: role
  isActive :: bool
  lastLoginAt :: time
  subscriptionPlan :: plan
  apiRequestsCount :: int
  apiRequestsLimit :: int
  password :: "string option"
  isEmailVerified :: bool
  emailVerificationOTP :: "string option"
  emailVerificationExpiresAt :: "time option"
  loginOTP :: "string option"
  loginOTPExpiresAt :: "time option"
  passwordResetOTP :: "string option"
  passwordResetExpiresAt :: "time option"
  failedLoginAttempts :: int
  lastFailedLoginAt :: "time option"
  accountLockedUntil :: "time option"

text \<open>JavaScript truthiness of an optional string: absent and the empty string are falsy.\<close>

fun truthy :: "string option \<Rightarrow> bool" where
  "truthy None = False"
| "truthy (Some s) = (s \<noteq> [])"

section \<open>The record store (\<open>BaseFirebaseService\<close>, \<open>UserService\<close>)\<close>

text \<open>
  The users collection is the list of its documents. \<open>getAll\<close> with one equality
  constraint on \<open>email\<close> keeps the matching documents, and \<open>getByEmail\<close> returns the first
  of them or null. \<open>create\<close> stores the data under the id the store assigns, \<open>delete\<close>
  removes the document with the id.

  The data of an \<open>update\<close> is a partial document: the fields the caller names, each
  with its value. A field of optional type may be passed as \<open>undefined\<close>, written \<open>None\<close>
  here. \<open>BaseFirebaseService.update\<close> hands the data, with \<open>updatedAt\<close> added, to the
  Firestore client's \<open>docRef.update\<close>. The client validates the data before it writes
  and throws on an \<open>undefined\<close> value (\<open>ignoreUndefinedProperties\<close> is enabled nowhere in
  the sources); it also fails when there is no document with the id. In both cases
  nothing is written and \<open>update\<close> is \<open>None\<close>, an exception without status for the
  caller; otherwise the named fields and \<open>updatedAt\<close> are written.
\<close>

type_synonym store = "user list"

datatype fieldUpdate =
    Set_isActive bool
  | Set_isEmailVerified bool
  | Set_lastLoginAt time
  | Set_failedLoginAttempts int
  | Set_password "string option"
  | Set_emailVerificationOTP "string option"
  | Set_emailVerificationExpiresAt "time option"
  | Set_loginOTP "string option"
  | Set_loginOTPExpiresAt "time option"
  | Set_passwordResetOTP "string option"
  | Set_passwordResetExpiresAt "time option"
  | Set_lastFailedLoginAt "time option"
  | Set_accountLockedUntil "time option"

fun isUndefined :: "fieldUpdate \<Rightarrow> bool" where
  "isUndefined (Set_isActive b) = False"
| "isUndefined (Set_isEmailVerified b) = False"
| "isUndefined (Set_lastLoginAt t) = False"
| "isUndefined (Set_failedLoginAttempts n) = False"
| "isUndefined (Set_password v) = (v = None)"
| "isUndefined (Set_emailVerificationOTP v) = (v = None)"
| "isUndefined (Set_emailVerificationExpiresAt v) = (v = None)"
| "isUndefined (Set_loginOTP v) = (v = None)"
| "isUndefined (Set_loginOTPExpiresAt v) = (v = None)"
| "isUndefined (Set_passwordResetOTP v) = (v = None)"
| "isUndefined (Set_passwordResetExpiresAt v) = (v = None)"
| "isUndefined (Set_lastFailedLoginAt v) = (v = None)"
| "isUndefined (Set_accountLockedUntil v) = (v = None)"

fun setField :: "fieldUpdate \<Rightarrow> user \<Rightarrow> user" where
  "setField (Set_isActive b) d = d\<lparr>isActive := b\<rparr>"
| "setField (Set_isEmailVerified b) d = d\<lparr>isEmailVerified := b\<rparr>"
| "setField (Set_lastLoginAt t) d = d\<lparr>lastLoginAt := t\<rparr>"
| "setField (Set_failedLoginAttempts n) d = d\<lparr>failedLoginAttempts := n\<rparr>"
| "setField (Set_password v) d = d\<lparr>password := v\<rparr>"
| "setField (Set_emailVerificationOTP v) d = d\<lparr>emailVerificationOTP := v\<rparr>"
| "setField (Set_emailVerificationExpiresAt v) d = d\<lparr>emailVerificationExpiresAt := v\<rparr>"
| "setField (Set_loginOTP v) d = d\<lparr>loginOTP := v\<rparr>"
| "setField (Set_loginOTPExpiresAt v) d = d\<lparr>loginOTPExpiresAt := v\<rparr>"
| "setField (Set_passwordResetOTP v) d = d\<lparr>passwordResetOTP := v\<rparr>"
| "setField (Set_passwordResetExpiresAt v) d = d\<lparr>passwordResetExpiresAt := v\<rparr>"
| "setField (Set_lastFailedLoginAt v) d = d\<lparr>lastFailedLoginAt := v\<rparr>"
| "setField (Set_accountLockedUntil v) d = d\<lparr>accountLockedUntil := v\<rparr>"

definition getAll_email :: "store \<Rightarrow> string \<Rightarrow> user list" where
  "getAll_email db e = filter (\<lambda>u. email u = e) db"

definition getByEmail :: "store \<Rightarrow> string \<Rightarrow> user option" where
  "getByEmail db e = (case getAll_email db e of [] \<Rightarrow> None | u # _ \<Rightarrow> Some u)"

definition getById :: "store \<Rightarrow> string \<Rightarrow> user option" where
  "getById db i = find (\<lambda>u. docId u = i) db"

definition update :: "store \<Rightarrow> string \<Rightarrow> fieldUpdate list \<Rightarrow> time \<Rightarrow> store option" where
  "update db i data t =
     (if list_ex isUndefined data then None
      else if find (\<lambda>u. docId u = i) db = None then None
      else Some (map (\<lambda>u. if docId u = i then (fold setField data u)\<lparr>updatedAt := t\<rparr> else u) db))"

definition create :: "store \<Rightarrow> string \<Rightarrow> user \<Rightarrow> time \<Rightarrow> store" where
  "create db i d t = db @ [d\<lparr>docId := i, createdAt := t, updatedAt := t\<rparr>]"

definition delete :: "store \<Rightarrow> string \<Rightarrow> store" where
  "delete db i = filter (\<lambda>u. docId u \<noteq> i) db"

section \<open>Tokens (\<open>JWTService\<close>)\<close>

text \<open>
  The \<open>jsonwebtoken\<close> library is modelled symbolically: a token is either the payload
  together with the key that signed it, or a string that does not decode. \<open>jwt.sign\<close> with
  \<open>expiresIn\<close> adds \<open>iat = floor(now / 1000)\<close> and \<open>exp = iat + lifetime\<close> (in seconds);
  \<open>jwt.verify\<close> throws unless the key is the signing key and \<open>floor(now / 1000) < exp\<close>.
\<close>

datatype purpose = Signup | Login | PasswordReset

record identity =
  userId :: string
  idEmail :: string
  idRole :: role
  idPlan :: plan

datatype claims = SessionClaims identity | PurposeClaims string purpose

record payload =
  claims :: claims
  iat :: int
  exp :: int

datatype token = Signed string payload | Malformed

definition JWT_EXPIRES_IN :: int where
  "JWT_EXPIRES_IN = 7 * 24 * 60 * 60"

definition OTP_EXPIRES_IN :: int where
  "OTP_EXPIRES_IN = 10 * 60"

definition jwt_sign :: "claims \<Rightarrow> string \<Rightarrow> int \<Rightarrow> time \<Rightarrow> token" where
  "jwt_sign c key expiresIn t =
     Signed key \<lparr>claims = c, iat = t div 1000, exp = t div 1000 + expiresIn\<rparr>"

definition jwt_verify :: "token \<Rightarrow> string \<Rightarrow> time \<Rightarrow> payload option" where
  "jwt_verify tok key t =
     (case tok of
        Malformed \<Rightarrow> None
      | Signed k p \<Rightarrow> if k \<noteq> key then None else if t div 1000 \<ge> exp p then None else Some p)"

definition jwt_decode :: "token \<Rightarrow> payload option" where
  "jwt_decode tok = (case tok of Malformed \<Rightarrow> None | Signed k p \<Rightarrow> Some p)"

definition generateToken :: "string \<Rightarrow> time \<Rightarrow> identity \<Rightarrow> token" where
  "generateToken secret t ident = jwt_sign (SessionClaims ident) secret JWT_EXPIRES_IN t"

definition generateOTPToken :: "string \<Rightarrow> time \<Rightarrow> string \<Rightarrow> purpose \<Rightarrow> token" where
  "generateOTPToken secret t em p = jwt_sign (PurposeClaims em p) secret OTP_EXPIRES_IN t"

definition verifyToken :: "string \<Rightarrow> time \<Rightarrow> token \<Rightarrow> payload option" where
  "verifyToken secret t tok = jwt_verify tok secret t"

definition verifyOTPToken :: "string \<Rightarrow> time \<Rightarrow> token \<Rightarrow> payload option" where
  "verifyOTPToken secret t tok = jwt_verify tok secret t"

definition isTokenExpired :: "time \<Rightarrow> token \<Rightarrow> bool" where
  "isTokenExpired t tok =
     (case jwt_decode tok of
        None \<Rightarrow> True
      | Some p \<Rightarrow> if exp p = 0 then True else exp p < t div 1000)"

section \<open>Environment, mail and responses\<close>

text \<open>
  What a handler reads from outside the store is passed in: the clock, the code
  \<open>JWTService.generateOTP\<close> draws (a random six-digit string), the id the store assigns
  to a created document, whether the mail transport delivers (\<open>EmailService.send...\<close>
  returns false when it does not), \<open>bcrypt\<close>'s hash and compare, and the signing key.
  The world is the users collection and the mails delivered so far.
\<close>

record env =
  now :: time
  generateOTP :: string
  newDocId :: string
  mailDelivered :: bool
  hashPassword :: "string \<Rightarrow> string"
  comparePassword :: "string \<Rightarrow> string \<Rightarrow> bool"
  JWT_SECRET :: string

datatype mail =
    SignupOTPMail string string
  | LoginOTPMail string string
  | PasswordResetOTPMail string string
  | EmailVerifiedMail string
  | PasswordSetMail string

record world =
  users :: store
  outbox :: "mail list"

definition sendMail :: "env \<Rightarrow> mail \<Rightarrow> world \<Rightarrow> world" where
  "sendMail ev m w = (if mailDelivered ev then w\<lparr>outbox := outbox w @ [m]\<rparr> else w)"

text \<open>
  Modelled from the spec: \<open>createError\<close> of \<open>middleware/errorHandler\<close> is not among the
  sources; it builds the tagged error (message and HTTP status) that each handler's
  \<open>catch\<close> turns into the response \<open>{success: false, error: message}\<close> with that status.
  An exception without a status becomes status 500 with the handler's fallback message.
\<close>

type_synonym error = "nat \<times> string"

definition createError :: "string \<Rightarrow> nat \<Rightarrow> error" where
  "createError msg code = (code, msg)"

record userSummary =
  sumId :: string
  sumEmail :: string
  sumDisplayName :: string
  sumRole :: role
  sumPlan :: plan

text \<open>The \<open>data\<close> of a success response (always status 200 in these handlers).\<close>

datatype data =
    MessageUser string string string
  | LoginPending string string string bool
  | LoginOk string token userSummary
  | Message string
  | ResetToken string token

type_synonym response = "error + data"

section \<open>Signup flow (\<open>routes/auth.ts\<close>)\<close>

text \<open>
  Request fields are strings; a missing field and the empty string are both falsy and
  take the same branch, so a missing field is the empty string here.
  A character is a UTF-16 code unit below 256, so that \<open>length\<close> is JavaScript's
  \<open>length\<close>; strings with other code units are outside the model. \<open>isSpace\<close> is the
  regular expression class \<open>\s\<close> on these: tab to carriage return, space and the
  no-break space U+00A0.
  \<open>emailRegex_test\<close> is \<open>/^[^\s@]+@[^\s@]+\.[^\s@]+$/.test\<close>: a non-empty local part, one
  \<open>@\<close>, and a domain without \<open>@\<close> or white space that has a dot with a character before
  and after it.
\<close>

definition isSpace :: "char \<Rightarrow> bool" where
  "isSpace c = (let n = (of_char c :: nat) in n = 32 \<or> n = 160 \<or> (9 \<le> n \<and> n \<le> 13))"

definition emailRegex_test :: "string \<Rightarrow> bool" where
  "emailRegex_test s =
     (let l = takeWhile (\<lambda>c. c \<noteq> CHR ''@'') s;
          r = dropWhile (\<lambda>c. c \<noteq> CHR ''@'') s
      in l \<noteq> [] \<and> list_all (\<lambda>c. \<not> isSpace c) l \<and>
         (case r of
            [] \<Rightarrow> False
          | _ # d \<Rightarrow> list_all (\<lambda>c. \<not> isSpace c \<and> c \<noteq> CHR ''@'') d \<and>
                     CHR ''.'' \<in> set (butlast (tl d))))"

definition newUser :: "env \<Rightarrow> string \<Rightarrow> string \<Rightarrow> user" where
  "newUser ev em dn =
     \<lparr>docId = [], createdAt = 0, updatedAt = 0,
      email = em, displayName = dn, photoURL = None, role = UserRole, isActive = False,
      lastLoginAt = now ev, subscriptionPlan = Free, apiRequestsCount = 0,
      apiRequestsLimit = 1000, password = None, isEmailVerified = False,
      emailVerificationOTP = Some (generateOTP ev),
      emailVerificationExpiresAt = Some (now ev + 10 * 60 * 1000),
      loginOTP = None, loginOTPExpiresAt = None,
      passwordResetOTP = None, passwordResetExpiresAt = None,
      failedLoginAttempts = 0, lastFailedLoginAt = None, accountLockedUntil = None\<rparr>"

definition signup_initiate :: "env \<Rightarrow> world \<Rightarrow> string \<Rightarrow> string \<Rightarrow> response \<times> world" where
  "signup_initiate ev w em dn =
     (if em = [] \<or> dn = [] then (Inl (createError ''Email and display name are required'' 400), w)
      else if \<not> emailRegex_test em then (Inl (createError ''Invalid email format'' 400), w)
      else case getByEmail (users w) em of
        Some existingUser \<Rightarrow> (Inl (createError ''User already exists'' 409), w)
      | None \<Rightarrow>
          let w1 = w\<lparr>users := create (users w) (newDocId ev) (newUser ev em dn) (now ev)\<rparr>
          in if \<not> mailDelivered ev
             then (Inl (createError ''Failed to send verification email'' 500),
                   w1\<lparr>users := delete (users w1) (newDocId ev)\<rparr>)
             else (Inr (MessageUser ''Verification OTP sent to your email'' (newDocId ev) em),
                   sendMail ev (SignupOTPMail em (generateOTP ev)) w1))"

text \<open>
  The expiry test shared by the three OTP checks:
  \<open>x && x.toDate() < new Date()\<close>, true when the OTP is to be refused as expired.
\<close>

definition otpExpired :: "time option \<Rightarrow> time \<Rightarrow> bool" where
  "otpExpired x t = (case x of None \<Rightarrow> False | Some e \<Rightarrow> e < t)"

definition verify_email :: "env \<Rightarrow> world \<Rightarrow> string \<Rightarrow> string \<Rightarrow> response \<times> world" where
  "verify_email ev w em otp =
     (if em = [] \<or> otp = [] then (Inl (createError ''Email and OTP are required'' 400), w)
      else case getByEmail (users w) em of
        None \<Rightarrow> (Inl (createError ''User not found'' 404), w)
      | Some u \<Rightarrow>
          if isEmailVerified u then (Inl (createError ''Email already verified'' 400), w)
          else if emailVerificationOTP u \<noteq> Some otp then (Inl (createError ''Invalid OTP'' 400), w)
          else if otpExpired (emailVerificationExpiresAt u) (now ev)
          then (Inl (createError ''OTP has expired'' 400), w)
          else (case update (users w) (docId u)
                 [Set_isEmailVerified True, Set_emailVerificationOTP None,
                  Set_emailVerificationExpiresAt None] (now ev) of
            None \<Rightarrow> (Inl (500, ''Failed to verify email''), w)
          | Some db \<Rightarrow>
              (Inr (MessageUser ''Email verified successfully. You can now set your password.''
                      (docId u) em),
               sendMail ev (EmailVerifiedMail em) (w\<lparr>users := db\<rparr>))))"

definition set_password :: "env \<Rightarrow> world \<Rightarrow> string \<Rightarrow> string \<Rightarrow> response \<times> world" where
  "set_password ev w em pw =
     (if em = [] \<or> pw = [] then (Inl (createError ''Email and password are required'' 400), w)
      else if length pw < 8
      then (Inl (createError ''Password must be at least 8 characters long'' 400), w)
      else case getByEmail (users w) em of
        None \<Rightarrow> (Inl (createError ''User not found'' 404), w)
      | Some u \<Rightarrow>
          if \<not> isEmailVerified u
          then (Inl (createError ''Email must be verified before setting password'' 403), w)
          else if truthy (password u) then (Inl (createError ''Password already set'' 400), w)
          else (case update (users w) (docId u)
                 [Set_password (Some (hashPassword ev pw)), Set_isActive True] (now ev) of
            None \<Rightarrow> (Inl (500, ''Failed to set password''), w)
          | Some db \<Rightarrow>
              (Inr (MessageUser ''Password set successfully. You can now log in.'' (docId u) em),
               sendMail ev (PasswordSetMail em) (w\<lparr>users := db\<rparr>))))"

section \<open>Login flow\<close>

text \<open>
  \<open>isLocked\<close> is the lockout test \<open>x && x.toDate() > new Date()\<close>. \<open>updateData\<close> is the
  object of that name built after a failed password check: the incremented counter,
  \<open>lastFailedLoginAt\<close> and, from the fifth failure on, \<open>accountLockedUntil\<close>. After a
  successful check the handler resets the counters (only when the counter is positive),
  passing \<open>lastFailedLoginAt\<close> and \<open>accountLockedUntil\<close> as \<open>undefined\<close>, and stores the
  login OTP in a second update.
\<close>

definition isLocked :: "time option \<Rightarrow> time \<Rightarrow> bool" where
  "isLocked x t = (case x of None \<Rightarrow> False | Some l \<Rightarrow> l > t)"

definition updateData :: "env \<Rightarrow> int \<Rightarrow> fieldUpdate list" where
  "updateData ev newFailedAttempts =
     [Set_failedLoginAttempts newFailedAttempts, Set_lastFailedLoginAt (Some (now ev))] @
     (if newFailedAttempts \<ge> 5
      then [Set_accountLockedUntil (Some (now ev + 30 * 60 * 1000))]
      else [])"

definition login :: "env \<Rightarrow> world \<Rightarrow> string \<Rightarrow> string \<Rightarrow> response \<times> world" where
  "login ev w em pw =
     (if em = [] \<or> pw = [] then (Inl (createError ''Email and password are required'' 400), w)
      else case getByEmail (users w) em of
        None \<Rightarrow> (Inl (createError ''Invalid credentials'' 401), w)
      | Some u \<Rightarrow>
          if \<not> isActive u then (Inl (createError ''Account is inactive'' 403), w)
          else if \<not> isEmailVerified u
          then (Inl (createError ''Email must be verified before login'' 403), w)
          else (case password u of
            None \<Rightarrow> (Inl (createError ''Password not set. Please complete your signup.'' 403), w)
          | Some h \<Rightarrow>
              if h = []
              then (Inl (createError ''Password not set. Please complete your signup.'' 403), w)
              else if isLocked (accountLockedUntil u) (now ev)
              then (Inl (createError
                      ''Account is temporarily locked due to multiple failed attempts'' 423), w)
              else if \<not> comparePassword ev pw h
              then (case update (users w) (docId u)
                      (updateData ev (failedLoginAttempts u + 1)) (now ev) of
                  None \<Rightarrow> (Inl (500, ''Failed to process login''), w)
                | Some db \<Rightarrow> (Inl (createError ''Invalid credentials'' 401), w\<lparr>users := db\<rparr>))
              else (case (if failedLoginAttempts u > 0
                          then update (users w) (docId u)
                                 [Set_failedLoginAttempts 0, Set_lastFailedLoginAt None,
                                  Set_accountLockedUntil None] (now ev)
                          else Some (users w)) of
                  None \<Rightarrow> (Inl (500, ''Failed to process login''), w)
                | Some db1 \<Rightarrow>
                    (case update db1 (docId u)
                            [Set_loginOTP (Some (generateOTP ev)),
                             Set_loginOTPExpiresAt (Some (now ev + 10 * 60 * 1000))] (now ev) of
                      None \<Rightarrow> (Inl (500, ''Failed to process login''), w\<lparr>users := db1\<rparr>)
                    | Some db2 \<Rightarrow>
                        if \<not> mailDelivered ev
                        then (Inl (createError ''Failed to send login OTP'' 500), w\<lparr>users := db2\<rparr>)
                        else (Inr (LoginPending ''Login OTP sent to your email'' (docId u) em True),
                              sendMail ev (LoginOTPMail em (generateOTP ev))
                                (w\<lparr>users := db2\<rparr>))))))"

definition verify_login_otp :: "env \<Rightarrow> world \<Rightarrow> string \<Rightarrow> string \<Rightarrow> response \<times> world" where
  "verify_login_otp ev w em otp =
     (if em = [] \<or> otp = [] then (Inl (createError ''Email and OTP are required'' 400), w)
      else case getByEmail (users w) em of
        None \<Rightarrow> (Inl (createError ''User not found'' 404), w)
      | Some u \<Rightarrow>
          if \<not> isActive u then (Inl (createError ''Account is inactive'' 403), w)
          else if loginOTP u \<noteq> Some otp then (Inl (createError ''Invalid OTP'' 400), w)
          else if otpExpired (loginOTPExpiresAt u) (now ev)
          then (Inl (createError ''OTP has expired'' 400), w)
          else (case update (users w) (docId u)
                  [Set_loginOTP None, Set_loginOTPExpiresAt None, Set_lastLoginAt (now ev)]
                  (now ev) of
            None \<Rightarrow> (Inl (500, ''Failed to verify OTP''), w)
          | Some db \<Rightarrow>
              (Inr (LoginOk ''Login successful''
                      (generateToken (JWT_SECRET ev) (now ev)
                         \<lparr>userId = docId u, idEmail = email u, idRole = role u,
                          idPlan = subscriptionPlan u\<rparr>)
                      \<lparr>sumId = docId u, sumEmail = email u, sumDisplayName = displayName u,
                       sumRole = role u, sumPlan = subscriptionPlan u\<rparr>),
               w\<lparr>users := db\<rparr>)))"

section \<open>Password reset flow\<close>

definition forgot_password :: "env \<Rightarrow> world \<Rightarrow> string \<Rightarrow> response \<times> world" where
  "forgot_password ev w em =
     (if em = [] then (Inl (createError ''Email is required'' 400), w)
      else case getByEmail (users w) em of
        None \<Rightarrow>
          (Inr (Message
             ''If an account with this email exists, a password reset OTP has been sent''), w)
      | Some u \<Rightarrow>
          if \<not> isActive u then (Inl (createError ''Account is inactive'' 403), w)
          else (case update (users w) (docId u)
                  [Set_passwordResetOTP (Some (generateOTP ev)),
                   Set_passwordResetExpiresAt (Some (now ev + 10 * 60 * 1000))] (now ev) of
            None \<Rightarrow> (Inl (500, ''Failed to process password reset request''), w)
          | Some db \<Rightarrow>
              if \<not> mailDelivered ev
              then (Inl (createError ''Failed to send password reset OTP'' 500), w\<lparr>users := db\<rparr>)
              else (Inr (Message ''Password reset OTP sent to your email''),
                    sendMail ev (PasswordResetOTPMail em (generateOTP ev)) (w\<lparr>users := db\<rparr>))))"

definition verify_reset_otp :: "env \<Rightarrow> world \<Rightarrow> string \<Rightarrow> string \<Rightarrow> response \<times> world" where
  "verify_reset_otp ev w em otp =
     (if em = [] \<or> otp = [] then (Inl (createError ''Email and OTP are required'' 400), w)
      else case getByEmail (users w) em of
        None \<Rightarrow> (Inl (createError ''User not found'' 404), w)
      | Some u \<Rightarrow>
          if \<not> isActive u then (Inl (createError ''Account is inactive'' 403), w)
          else if passwordResetOTP u \<noteq> Some otp then (Inl (createError ''Invalid OTP'' 400), w)
          else if otpExpired (passwordResetExpiresAt u) (now ev)
          then (Inl (createError ''OTP has expired'' 400), w)
          else (Inr (ResetToken ''OTP verified successfully. You can now set a new password.''
                       (generateOTPToken (JWT_SECRET ev) (now ev) em PasswordReset)), w))"

text \<open>
  The reset token of the request is a token or missing (\<open>None\<close>, falsy). A decoded
  session payload has no \<open>purpose\<close> field, so it fails the purpose test like a purpose
  token for another flow does.
\<close>

fun resetEmail :: "payload option \<Rightarrow> string option" where
  "resetEmail None = None"
| "resetEmail (Some p) =
     (case claims p of
        PurposeClaims em PasswordReset \<Rightarrow> Some em
      | _ \<Rightarrow> None)"

definition set_new_password :: "env \<Rightarrow> world \<Rightarrow> token option \<Rightarrow> string \<Rightarrow> response \<times> world" where
  "set_new_password ev w resetToken newPassword =
     (case resetToken of
        None \<Rightarrow> (Inl (createError ''Reset token and new password are required'' 400), w)
      | Some tok \<Rightarrow>
          if newPassword = []
          then (Inl (createError ''Reset token and new password are required'' 400), w)
          else if length newPassword < 8
          then (Inl (createError ''Password must be at least 8 characters long'' 400), w)
          else (case resetEmail (verifyOTPToken (JWT_SECRET ev) (now ev) tok) of
            None \<Rightarrow> (Inl (createError ''Invalid or expired reset token'' 400), w)
          | Some em \<Rightarrow>
              (case getByEmail (users w) em of
                None \<Rightarrow> (Inl (createError ''User not found'' 404), w)
              | Some u \<Rightarrow>
                  if \<not> isActive u then (Inl (createError ''Account is inactive'' 403), w)
                  else (case update (users w) (docId u)
                          [Set_password (Some (hashPassword ev newPassword)),
                           Set_passwordResetOTP None, Set_passwordResetExpiresAt None]
                          (now ev) of
                    None \<Rightarrow> (Inl (500, ''Failed to reset password''), w)
                  | Some db \<Rightarrow>
                      (Inr (Message
                         ''Password reset successfully. You can now log in with your new password.''),
                       sendMail ev (PasswordSetMail em) (w\<lparr>users := db\<rparr>))))))"

section \<open>Session middleware (\<open>authenticateUser\<close>)\<close>

text \<open>
  The \<open>Authorization\<close> header is missing (\<open>None\<close>), does not start with \<open>Bearer \<close>, starts
  with it and carries nothing, or carries a token. A verified payload without a \<open>userId\<close>
  (a purpose token) or with an empty one makes the store's \<open>doc\<close> call throw, which the
  \<open>catch\<close> turns into status 401, \<open>Authentication failed\<close>. On success the handler attaches
  the identity to the request; the model returns it.
\<close>

datatype header = NotBearer | BearerEmpty | Bearer token

definition authenticateUser :: "env \<Rightarrow> store \<Rightarrow> header option \<Rightarrow> error + identity" where
  "authenticateUser ev db authHeader =
     (case authHeader of
        None \<Rightarrow> Inl (createError ''No token provided'' 401)
      | Some NotBearer \<Rightarrow> Inl (createError ''No token provided'' 401)
      | Some BearerEmpty \<Rightarrow> Inl (createError ''Invalid token format'' 401)
      | Some (Bearer tok) \<Rightarrow>
          (case verifyToken (JWT_SECRET ev) (now ev) tok of
            None \<Rightarrow> Inl (createError ''Invalid or expired token'' 401)
          | Some decodedToken \<Rightarrow>
              if isTokenExpired (now ev) tok then Inl (createError ''Token has expired'' 401)
              else (case claims decodedToken of
                PurposeClaims em p \<Rightarrow> Inl (createError ''Authentication failed'' 401)
              | SessionClaims ident \<Rightarrow>
                  if userId ident = [] then Inl (createError ''Authentication failed'' 401)
                  else (case getById db (userId ident) of
                    None \<Rightarrow> Inl (createError ''User not found'' 404)
                  | Some u \<Rightarrow>
                      if \<not> isActive u then Inl (createError ''User account is inactive'' 403)
                      else Inr \<lparr>userId = userId ident, idEmail = idEmail ident,
                                idRole = idRole ident, idPlan = idPlan ident\<rparr>))))"

section \<open>Repeated requests and concrete inputs\<close>

text \<open>
  A caller's successive requests against one account: each request is answered in the
  world the previous one left. \<open>login_attempts\<close> submits passwords to \<open>login\<close>,
  \<open>submit_login_otps\<close> submits codes to the login OTP step.
\<close>

fun login_attempts :: "world \<Rightarrow> string \<Rightarrow> (env \<times> string) list \<Rightarrow> world" where
  "login_attempts w em [] = w"
| "login_attempts w em ((ev, pw) # rest) = login_attempts (snd (login ev w em pw)) em rest"

fun submit_login_otps :: "world \<Rightarrow> string \<Rightarrow> (env \<times> string) list \<Rightarrow> world" where
  "submit_login_otps w em [] = w"
| "submit_login_otps w em ((ev, otp) # rest) =
     submit_login_otps (snd (verify_login_otp ev w em otp)) em rest"

text \<open>
  Inputs for the concrete evaluations below: an environment at a given time whose
  generator draws \<open>123456\<close> and whose hash puts \<open>#\<close> before the plaintext, the empty
  world, and a fully signed-up account with password \<open>longenough1\<close>.
\<close>

definition env_at :: "time \<Rightarrow> bool \<Rightarrow> env" where
  "env_at t ok =
     \<lparr>now = t, generateOTP = ''123456'', newDocId = ''u1'', mailDelivered = ok,
      hashPassword = (\<lambda>p. CHR ''#'' # p), comparePassword = (\<lambda>p h. h = CHR ''#'' # p),
      JWT_SECRET = ''k''\<rparr>"

definition emptyWorld :: world where
  "emptyWorld = \<lparr>users = [], outbox = []\<rparr>"

definition ann :: user where
  "ann =
     \<lparr>docId = ''u1'', createdAt = 0, updatedAt = 0,
      email = ''a@b.com'', displayName = ''Ann'', photoURL = None, role = UserRole,
      isActive = True, lastLoginAt = 0, subscriptionPlan = Free, apiRequestsCount = 0,
      apiRequestsLimit = 1000, password = Some ''#longenough1'', isEmailVerified = True,
      emailVerificationOTP = None, emailVerificationExpiresAt = None,
      loginOTP = None, loginOTPExpiresAt = None,
      passwordResetOTP = None, passwordResetExpiresAt = None,
      failedLoginAttempts = 0, lastFailedLoginAt = None, accountLockedUntil = None\<rparr>"

definition world_of :: "user \<Rightarrow> world" where
  "world_of u = \<lparr>users = [u], outbox = []\<rparr>"

text \<open>
  Five wrong passwords for that account, one a second, and the world they leave.
\<close>

definition wrongAttempts :: "(env \<times> string) list" where
  "wrongAttempts =
     [(env_at 1000 True, ''wrong1''), (env_at 2000 True, ''wrong2''),
      (env_at 3000 True, ''wrong3''), (env_at 4000 True, ''wrong4'')]"

definition lockedWorld :: world where
  "lockedWorld =
     login_attempts (world_of ann) ''a@b.com'' (wrongAttempts @ [(env_at 5000 True, ''wrong5'')])"

section \<open>Facts about the store\<close>

lemmas ex_defs = env_at_def emptyWorld_def ann_def world_of_def

lemma getByEmail_Cons:
  "getByEmail (x # xs) em = (if email x = em then Some x else getByEmail xs em)"
  by (simp add: getByEmail_def getAll_email_def)

lemma getByEmail_Nil: "getByEmail [] em = None"
  by (simp add: getByEmail_def getAll_email_def)

lemma getByEmail_mem: "getByEmail db em = Some u \<Longrightarrow> u \<in> set db \<and> email u = em"
  by (induction db) (auto simp: getByEmail_Cons getByEmail_Nil split: if_splits)

lemma getByEmail_map:
  "getByEmail db em = Some u \<Longrightarrow> (\<And>d. email (g d) = email d) \<Longrightarrow>
   getByEmail (map g db) em = Some (g u)"
  by (induction db) (auto simp: getByEmail_Cons getByEmail_Nil split: if_splits)

lemma find_mem: "u \<in> set db \<Longrightarrow> find (\<lambda>d. docId d = docId u) db \<noteq> None"
  by (auto simp: find_None_iff)

lemma setField_email: "email (setField f d) = email d"
  by (cases f) simp_all

lemma setField_docId: "docId (setField f d) = docId d"
  by (cases f) simp_all

lemma fold_setField_email: "email (fold setField data d) = email d"
  by (induction data arbitrary: d) (simp_all add: setField_email)

lemma fold_setField_docId: "docId (fold setField data d) = docId d"
  by (induction data arbitrary: d) (simp_all add: setField_docId)

lemma update_undefined: "list_ex isUndefined data \<Longrightarrow> update db i data t = None"
  by (simp add: update_def)

lemma update_found:
  assumes "getByEmail db em = Some u" and "\<not> list_ex isUndefined data"
  shows "update db (docId u) data t =
           Some (map (\<lambda>d. if docId d = docId u then (fold setField data d)\<lparr>updatedAt := t\<rparr>
                           else d) db)"
  using getByEmail_mem [OF assms(1)] find_mem [of u db] assms(2) by (simp add: update_def)

lemma getByEmail_update:
  assumes "getByEmail db em = Some u" and "update db (docId u) data t = Some db'"
  shows "getByEmail db' em = Some ((fold setField data u)\<lparr>updatedAt := t\<rparr>)"
proof -
  let ?g = "\<lambda>d. if docId d = docId u then (fold setField data d)\<lparr>updatedAt := t\<rparr> else d"
  have "db' = map ?g db" using assms(2) by (simp add: update_def split: if_splits)
  moreover have "getByEmail (map ?g db) em = Some (?g u)"
    by (rule getByEmail_map [OF assms(1)]) (simp add: fold_setField_email)
  ultimately show ?thesis by simp
qed

lemmas eval_defs = ex_defs getByEmail_def getAll_email_def update_def create_def delete_def
  createError_def sendMail_def otpExpired_def

lemma getByEmail_append:
  "getByEmail (xs @ ys) em =
     (case getByEmail xs em of Some u \<Rightarrow> Some u | None \<Rightarrow> getByEmail ys em)"
  by (induction xs) (simp_all add: getByEmail_Cons getByEmail_Nil)

lemma delete_create_fresh:
  "i \<notin> docId ` set db \<Longrightarrow> delete (create db i d t) i = db"
  by (induction db) (auto simp: delete_def create_def)

lemma getByEmail_create:
  "getByEmail db (email d) = None \<Longrightarrow>
   getByEmail (create db i d t) (email d) = Some (d\<lparr>docId := i, createdAt := t, updatedAt := t\<rparr>)"
  by (simp add: create_def getByEmail_append getByEmail_Cons)

lemma getById_map:
  "(\<And>d. docId (g d) = docId d) \<Longrightarrow> getById (map g db) i = map_option g (getById db i)"
  by (induction db) (simp_all add: getById_def)

section \<open>Token round trip\<close>

text \<open>
  Claim C6. For every identity (account id, email, role, plan), the session token issued
  at time \<open>t\<close> verifies at time \<open>t'\<close> to a payload carrying exactly that identity as long as
  it is unexpired (\<open>floor(t'/1000)\<close> before \<open>iat\<close> plus seven days), and verifies to null
  from its expiry on; and any session token, signed with the right key, whose expiry
  claim \<open>e\<close> is not after the current second verifies to null.
\<close>

theorem token_round_trip:
  "verifyToken secret t' (generateToken secret t ident) =
     (if t' div 1000 < t div 1000 + 604800
      then Some \<lparr>claims = SessionClaims ident, iat = t div 1000, exp = t div 1000 + 604800\<rparr>
      else None)
   \<and> (e \<le> t' div 1000 \<longrightarrow>
        verifyToken secret t' (Signed secret \<lparr>claims = SessionClaims ident, iat = i, exp = e\<rparr>) = None)"
  by (simp add: verifyToken_def generateToken_def jwt_sign_def jwt_verify_def JWT_EXPIRES_IN_def)

theorem token_round_trip_witness:
  "verifyToken ''k'' 5000 (generateToken ''k'' 1000
       \<lparr>userId = ''u1'', idEmail = ''a@b.com'', idRole = UserRole, idPlan = Free\<rparr>) =
     Some \<lparr>claims = SessionClaims \<lparr>userId = ''u1'', idEmail = ''a@b.com'', idRole = UserRole, idPlan = Free\<rparr>,
           iat = 1, exp = 604801\<rparr>
   \<and> (4 :: int) \<le> 5000 div 1000
   \<and> verifyToken ''k'' 5000 (Signed ''k''
        \<lparr>claims = SessionClaims \<lparr>userId = ''u1'', idEmail = ''a@b.com'', idRole = UserRole, idPlan = Free\<rparr>,
         iat = 1, exp = 4\<rparr>) = None"
  using token_round_trip [of "''k''" 5000 1000
      "\<lparr>userId = ''u1'', idEmail = ''a@b.com'', idRole = UserRole, idPlan = Free\<rparr>" 4 1]
  by simp
section \<open>OTP checks\<close>

text \<open>
  Claim C1, as amended. In each of the three stored OTP checks (signup email
  verification, login OTP, password reset OTP), for a well-formed request that reaches
  the check: the request is refused as invalid exactly when the submitted code is not
  the stored OTP, and refused as expired exactly when the code is the stored OTP and the
  stored expiry is present and strictly less than the current time. So an OTP whose
  expiry is strictly less than now is never accepted (the call fails and changes
  nothing). The password reset check accepts exactly the matching codes whose stored
  expiry is absent or not earlier than now, and it accepts nothing else.
\<close>

theorem otp_expiry_test:
  "(em \<noteq> [] \<and> otp \<noteq> [] \<and> getByEmail (users w) em = Some u \<and> \<not> isEmailVerified u \<longrightarrow>
      (fst (verify_email ev w em otp) = Inl (400, ''Invalid OTP'')
         \<longleftrightarrow> emailVerificationOTP u \<noteq> Some otp) \<and>
      (fst (verify_email ev w em otp) = Inl (400, ''OTP has expired'')
         \<longleftrightarrow> emailVerificationOTP u = Some otp \<and>
             (\<exists>e. emailVerificationExpiresAt u = Some e \<and> e < now ev)))
   \<and> (em \<noteq> [] \<and> otp \<noteq> [] \<and> getByEmail (users w) em = Some u \<and> isActive u \<longrightarrow>
      (fst (verify_login_otp ev w em otp) = Inl (400, ''Invalid OTP'')
         \<longleftrightarrow> loginOTP u \<noteq> Some otp) \<and>
      (fst (verify_login_otp ev w em otp) = Inl (400, ''OTP has expired'')
         \<longleftrightarrow> loginOTP u = Some otp \<and> (\<exists>e. loginOTPExpiresAt u = Some e \<and> e < now ev)))
   \<and> (em \<noteq> [] \<and> otp \<noteq> [] \<and> getByEmail (users w) em = Some u \<and> isActive u \<longrightarrow>
      (fst (verify_reset_otp ev w em otp) = Inl (400, ''Invalid OTP'')
         \<longleftrightarrow> passwordResetOTP u \<noteq> Some otp) \<and>
      (fst (verify_reset_otp ev w em otp) = Inl (400, ''OTP has expired'')
         \<longleftrightarrow> passwordResetOTP u = Some otp \<and>
             (\<exists>e. passwordResetExpiresAt u = Some e \<and> e < now ev)) \<and>
      (fst (verify_reset_otp ev w em otp) =
           Inr (ResetToken ''OTP verified successfully. You can now set a new password.''
                  (generateOTPToken (JWT_SECRET ev) (now ev) em PasswordReset))
         \<longleftrightarrow> passwordResetOTP u = Some otp \<and>
             (passwordResetExpiresAt u = None \<or>
              (\<exists>e. passwordResetExpiresAt u = Some e \<and> now ev \<le> e))))
   \<and> (getByEmail (users w) em = Some u \<and>
       (\<exists>e. emailVerificationExpiresAt u = Some e \<and> e < now ev) \<longrightarrow>
      isl (fst (verify_email ev w em otp)) \<and> snd (verify_email ev w em otp) = w)
   \<and> (getByEmail (users w) em = Some u \<and> (\<exists>e. loginOTPExpiresAt u = Some e \<and> e < now ev) \<longrightarrow>
      isl (fst (verify_login_otp ev w em otp)) \<and> snd (verify_login_otp ev w em otp) = w)
   \<and> (getByEmail (users w) em = Some u \<and>
       (\<exists>e. passwordResetExpiresAt u = Some e \<and> e < now ev) \<longrightarrow>
      isl (fst (verify_reset_otp ev w em otp)) \<and> snd (verify_reset_otp ev w em otp) = w)
   \<and> (fst (verify_reset_otp ev w em otp) = Inr d \<longrightarrow>
      (\<exists>x. getByEmail (users w) em = Some x \<and> passwordResetOTP x = Some otp \<and>
           (passwordResetExpiresAt x = None \<or>
            (\<exists>e. passwordResetExpiresAt x = Some e \<and> now ev \<le> e))))"
proof (intro conjI)
  show "em \<noteq> [] \<and> otp \<noteq> [] \<and> getByEmail (users w) em = Some u \<and> \<not> isEmailVerified u \<longrightarrow>
      (fst (verify_email ev w em otp) = Inl (400, ''Invalid OTP'')
         \<longleftrightarrow> emailVerificationOTP u \<noteq> Some otp) \<and>
      (fst (verify_email ev w em otp) = Inl (400, ''OTP has expired'')
         \<longleftrightarrow> emailVerificationOTP u = Some otp \<and>
             (\<exists>e. emailVerificationExpiresAt u = Some e \<and> e < now ev))"
    by (auto simp: verify_email_def otpExpired_def createError_def update_def
        split: option.splits)
  show "em \<noteq> [] \<and> otp \<noteq> [] \<and> getByEmail (users w) em = Some u \<and> isActive u \<longrightarrow>
      (fst (verify_login_otp ev w em otp) = Inl (400, ''Invalid OTP'')
         \<longleftrightarrow> loginOTP u \<noteq> Some otp) \<and>
      (fst (verify_login_otp ev w em otp) = Inl (400, ''OTP has expired'')
         \<longleftrightarrow> loginOTP u = Some otp \<and> (\<exists>e. loginOTPExpiresAt u = Some e \<and> e < now ev))"
    by (auto simp: verify_login_otp_def otpExpired_def createError_def update_def
        split: option.splits)
  show "em \<noteq> [] \<and> otp \<noteq> [] \<and> getByEmail (users w) em = Some u \<and> isActive u \<longrightarrow>
      (fst (verify_reset_otp ev w em otp) = Inl (400, ''Invalid OTP'')
         \<longleftrightarrow> passwordResetOTP u \<noteq> Some otp) \<and>
      (fst (verify_reset_otp ev w em otp) = Inl (400, ''OTP has expired'')
         \<longleftrightarrow> passwordResetOTP u = Some otp \<and>
             (\<exists>e. passwordResetExpiresAt u = Some e \<and> e < now ev)) \<and>
      (fst (verify_reset_otp ev w em otp) =
           Inr (ResetToken ''OTP verified successfully. You can now set a new password.''
                  (generateOTPToken (JWT_SECRET ev) (now ev) em PasswordReset))
         \<longleftrightarrow> passwordResetOTP u = Some otp \<and>
             (passwordResetExpiresAt u = None \<or>
              (\<exists>e. passwordResetExpiresAt u = Some e \<and> now ev \<le> e)))"
    by (auto simp: verify_reset_otp_def otpExpired_def createError_def split: option.splits)
  show "getByEmail (users w) em = Some u \<and>
       (\<exists>e. emailVerificationExpiresAt u = Some e \<and> e < now ev) \<longrightarrow>
      isl (fst (verify_email ev w em otp)) \<and> snd (verify_email ev w em otp) = w"
    by (auto simp: verify_email_def otpExpired_def createError_def)
  show "getByEmail (users w) em = Some u \<and> (\<exists>e. loginOTPExpiresAt u = Some e \<and> e < now ev) \<longrightarrow>
      isl (fst (verify_login_otp ev w em otp)) \<and> snd (verify_login_otp ev w em otp) = w"
    by (auto simp: verify_login_otp_def otpExpired_def createError_def)
  show "getByEmail (users w) em = Some u \<and>
       (\<exists>e. passwordResetExpiresAt u = Some e \<and> e < now ev) \<longrightarrow>
      isl (fst (verify_reset_otp ev w em otp)) \<and> snd (verify_reset_otp ev w em otp) = w"
    by (auto simp: verify_reset_otp_def otpExpired_def createError_def)
  show "fst (verify_reset_otp ev w em otp) = Inr d \<longrightarrow>
      (\<exists>x. getByEmail (users w) em = Some x \<and> passwordResetOTP x = Some otp \<and>
           (passwordResetExpiresAt x = None \<or>
            (\<exists>e. passwordResetExpiresAt x = Some e \<and> now ev \<le> e)))"
    by (auto simp: verify_reset_otp_def otpExpired_def createError_def
        split: if_splits option.splits)
qed

theorem otp_expiry_test_witness:
  "fst (verify_email (env_at 600001 True)
          (snd (signup_initiate (env_at 0 True) emptyWorld ''a@b.com'' ''Ann''))
          ''a@b.com'' ''123456'') = Inl (400, ''OTP has expired'')
   \<and> fst (verify_login_otp (env_at 600001 True)
          (snd (login (env_at 0 True) (world_of ann) ''a@b.com'' ''longenough1''))
          ''a@b.com'' ''123456'') = Inl (400, ''OTP has expired'')
   \<and> fst (verify_reset_otp (env_at 600001 True)
          (snd (forgot_password (env_at 0 True) (world_of ann) ''a@b.com''))
          ''a@b.com'' ''123456'') = Inl (400, ''OTP has expired'')
   \<and> fst (verify_reset_otp (env_at 600000 True)
          (snd (forgot_password (env_at 0 True) (world_of ann) ''a@b.com''))
          ''a@b.com'' ''123456'') =
       Inr (ResetToken ''OTP verified successfully. You can now set a new password.''
              (generateOTPToken ''k'' 600000 ''a@b.com'' PasswordReset))
   \<and> snd (verify_reset_otp (env_at 600001 True)
          (snd (forgot_password (env_at 0 True) (world_of ann) ''a@b.com''))
          ''a@b.com'' ''123456'') =
       snd (forgot_password (env_at 0 True) (world_of ann) ''a@b.com'')"
proof -
  let ?w1 = "snd (signup_initiate (env_at 0 True) emptyWorld ''a@b.com'' ''Ann'')"
  let ?w2 = "snd (login (env_at 0 True) (world_of ann) ''a@b.com'' ''longenough1'')"
  let ?w3 = "snd (forgot_password (env_at 0 True) (world_of ann) ''a@b.com'')"
  let ?u1 = "the (getByEmail (users ?w1) ''a@b.com'')"
  let ?u2 = "the (getByEmail (users ?w2) ''a@b.com'')"
  let ?u3 = "the (getByEmail (users ?w3) ''a@b.com'')"
  have n: "''a@b.com'' \<noteq> []" "''123456'' \<noteq> []" by simp_all
  have e: "now (env_at 600001 True) = 600001" "now (env_at 600000 True) = 600000"
    "JWT_SECRET (env_at 600000 True) = ''k''"
    by (simp_all add: env_at_def)
  have u1: "getByEmail (users ?w1) ''a@b.com'' = Some ?u1" "\<not> isEmailVerified ?u1"
    "emailVerificationOTP ?u1 = Some ''123456''" "emailVerificationExpiresAt ?u1 = Some 600000"
    by (simp_all add: eval_defs signup_initiate_def emailRegex_test_def isSpace_def newUser_def)
  have u2: "getByEmail (users ?w2) ''a@b.com'' = Some ?u2" "isActive ?u2"
    "loginOTP ?u2 = Some ''123456''" "loginOTPExpiresAt ?u2 = Some 600000"
    by (simp_all add: eval_defs login_def isLocked_def)
  have u3: "getByEmail (users ?w3) ''a@b.com'' = Some ?u3" "isActive ?u3"
    "passwordResetOTP ?u3 = Some ''123456''" "passwordResetExpiresAt ?u3 = Some 600000"
    by (simp_all add: eval_defs forgot_password_def)
  note t1 = otp_expiry_test [where ev = "env_at 600001 True" and w = ?w1 and em = "''a@b.com''"
      and otp = "''123456''" and u = ?u1]
  note t2 = otp_expiry_test [where ev = "env_at 600001 True" and w = ?w2 and em = "''a@b.com''"
      and otp = "''123456''" and u = ?u2]
  note t3 = otp_expiry_test [where ev = "env_at 600001 True" and w = ?w3 and em = "''a@b.com''"
      and otp = "''123456''" and u = ?u3]
  note t4 = otp_expiry_test [where ev = "env_at 600000 True" and w = ?w3 and em = "''a@b.com''"
      and otp = "''123456''" and u = ?u3]
  have 1: "fst (verify_email (env_at 600001 True) ?w1 ''a@b.com'' ''123456'')
             = Inl (400, ''OTP has expired'')"
    using t1 n u1 e(1) by simp
  have 2: "fst (verify_login_otp (env_at 600001 True) ?w2 ''a@b.com'' ''123456'')
             = Inl (400, ''OTP has expired'')"
    using t2 n u2 e(1) by simp
  have 3: "fst (verify_reset_otp (env_at 600001 True) ?w3 ''a@b.com'' ''123456'')
             = Inl (400, ''OTP has expired'')"
    "snd (verify_reset_otp (env_at 600001 True) ?w3 ''a@b.com'' ''123456'') = ?w3"
    using t3 n u3 e(1) by simp_all
  have 4: "fst (verify_reset_otp (env_at 600000 True) ?w3 ''a@b.com'' ''123456'') =
       Inr (ResetToken ''OTP verified successfully. You can now set a new password.''
              (generateOTPToken ''k'' 600000 ''a@b.com'' PasswordReset))"
    using t4 n u3 e(2) e(3) by simp
  show ?thesis using 1 2 3 4 by simp
qed

text \<open>
  The claim as first stated fails: the reset OTP that \<open>forgot_password\<close> stores at time 0
  expires at 600000 and is still accepted at time 600000 (expiry equal to now). A stored
  reset OTP without expiry field (a record well-formed for the \<open>User\<close> type, though no
  handler of the flow writes one) is accepted as well.
\<close>

theorem otp_expiry_counterexample:
  "map_option passwordResetOTP
      (getByEmail (users (snd (forgot_password (env_at 0 True) (world_of ann) ''a@b.com'')))
         ''a@b.com'')
     = Some (Some ''123456'')
   \<and> map_option passwordResetExpiresAt
      (getByEmail (users (snd (forgot_password (env_at 0 True) (world_of ann) ''a@b.com'')))
         ''a@b.com'')
     = Some (Some 600000)
   \<and> now (env_at 600000 True) = 600000
   \<and> fst (verify_reset_otp (env_at 600000 True)
        (snd (forgot_password (env_at 0 True) (world_of ann) ''a@b.com'')) ''a@b.com'' ''123456'')
     = Inr (ResetToken ''OTP verified successfully. You can now set a new password.''
             (generateOTPToken ''k'' 600000 ''a@b.com'' PasswordReset))
   \<and> passwordResetExpiresAt (ann\<lparr>passwordResetOTP := Some ''123456''\<rparr>) = None
   \<and> fst (verify_reset_otp (env_at 600000 True)
        (world_of (ann\<lparr>passwordResetOTP := Some ''123456''\<rparr>)) ''a@b.com'' ''123456'')
     = Inr (ResetToken ''OTP verified successfully. You can now set a new password.''
             (generateOTPToken ''k'' 600000 ''a@b.com'' PasswordReset))"
  by (simp add: eval_defs verify_reset_otp_def forgot_password_def)

section \<open>Anti-enumeration in \<open>forgot_password\<close>\<close>

text \<open>
  Claim C2, evaluated on the code. For an email without account the handler answers
  with the generic success message; for the email of an inactive account it answers
  403, \<open>Account is inactive\<close>. Neither call changes the world, but the two answers
  differ, so the caller can tell the cases apart.
\<close>

theorem forgot_password_reveals_inactive:
  "forgot_password (env_at 1000 True) emptyWorld ''a@b.com'' =
     (Inr (Message ''If an account with this email exists, a password reset OTP has been sent''),
      emptyWorld)
   \<and> forgot_password (env_at 1000 True) (world_of (ann\<lparr>isActive := False\<rparr>)) ''a@b.com'' =
     (Inl (403, ''Account is inactive''), world_of (ann\<lparr>isActive := False\<rparr>))"
  by (simp add: eval_defs forgot_password_def)

section \<open>Lockout\<close>

lemma login_locked:
  assumes "getByEmail (users w) em = Some u" and "em \<noteq> []" and "pw \<noteq> []"
    and "isActive u" and "isEmailVerified u" and "password u = Some h" and "h \<noteq> []"
    and "isLocked (accountLockedUntil u) (now ev)"
  shows "login ev w em pw =
     (Inl (423, ''Account is temporarily locked due to multiple failed attempts''), w)"
  using assms by (simp add: login_def createError_def)

lemma updateData_defined: "\<not> list_ex isUndefined (updateData ev n)"
  by (simp add: updateData_def)

lemma login_failed_step:
  assumes "getByEmail (users w) em = Some u" and "em \<noteq> []" and "pw \<noteq> []"
    and "isActive u" and "isEmailVerified u" and "password u = Some h" and "h \<noteq> []"
    and "\<not> isLocked (accountLockedUntil u) (now ev)" and "\<not> comparePassword ev pw h"
  shows "fst (login ev w em pw) = Inl (401, ''Invalid credentials'')"
    and "getByEmail (users (snd (login ev w em pw))) em =
           Some ((fold setField (updateData ev (failedLoginAttempts u + 1)) u)
                   \<lparr>updatedAt := now ev\<rparr>)"
proof -
  let ?d = "updateData ev (failedLoginAttempts u + 1)"
  obtain db where db: "update (users w) (docId u) ?d (now ev) = Some db"
    using update_found [OF assms(1) updateData_defined] by blast
  have g: "getByEmail db em = Some ((fold setField ?d u)\<lparr>updatedAt := now ev\<rparr>)"
    by (rule getByEmail_update [OF assms(1) db])
  have r: "login ev w em pw = (Inl (401, ''Invalid credentials''), w\<lparr>users := db\<rparr>)"
    using assms db by (simp add: login_def createError_def)
  show "fst (login ev w em pw) = Inl (401, ''Invalid credentials'')" by (simp add: r)
  show "getByEmail (users (snd (login ev w em pw))) em =
          Some ((fold setField ?d u)\<lparr>updatedAt := now ev\<rparr>)"
    using g by (simp add: r)
qed

lemma login_reset_fails:
  assumes "getByEmail (users w) em = Some u" and "em \<noteq> []" and "pw \<noteq> []"
    and "isActive u" and "isEmailVerified u" and "password u = Some h" and "h \<noteq> []"
    and "\<not> isLocked (accountLockedUntil u) (now ev)" and "comparePassword ev pw h"
    and "failedLoginAttempts u > 0"
  shows "login ev w em pw = (Inl (500, ''Failed to process login''), w)"
  using assms by (simp add: login_def createError_def update_def)

lemma login_attempts_append:
  "login_attempts w em (xs @ ys) = login_attempts (login_attempts w em xs) em ys"
  by (induction xs arbitrary: w) auto

lemma login_attempts_failures:
  "getByEmail (users w) em = Some u \<Longrightarrow> em \<noteq> [] \<Longrightarrow> isActive u \<Longrightarrow> isEmailVerified u \<Longrightarrow>
   password u = Some h \<Longrightarrow> h \<noteq> [] \<Longrightarrow> accountLockedUntil u = None \<Longrightarrow>
   failedLoginAttempts u + int (length as) \<le> 4 \<Longrightarrow>
   list_all (\<lambda>r. snd r \<noteq> [] \<and> \<not> comparePassword (fst r) (snd r) h) as \<Longrightarrow>
   \<exists>u'. getByEmail (users (login_attempts w em as)) em = Some u' \<and> isActive u' \<and>
        isEmailVerified u' \<and> password u' = Some h \<and> accountLockedUntil u' = None \<and>
        docId u' = docId u \<and>
        failedLoginAttempts u' = failedLoginAttempts u + int (length as)"
proof (induction as arbitrary: w u)
  case Nil
  then show ?case by simp
next
  case (Cons r as)
  obtain ev pw where r: "r = (ev, pw)" by (cases r)
  let ?u1 = "(fold setField (updateData ev (failedLoginAttempts u + 1)) u)\<lparr>updatedAt := now ev\<rparr>"
  from Cons.prems r have pw: "pw \<noteq> []" "\<not> comparePassword ev pw h" by simp_all
  have nl: "\<not> isLocked (accountLockedUntil u) (now ev)"
    using Cons.prems(7) by (simp add: isLocked_def)
  have g1: "getByEmail (users (snd (login ev w em pw))) em = Some ?u1"
    by (rule login_failed_step(2) [OF Cons.prems(1) Cons.prems(2) pw(1) Cons.prems(3)
          Cons.prems(4) Cons.prems(5) Cons.prems(6) nl pw(2)])
  have small: "\<not> failedLoginAttempts u + 1 \<ge> 5" using Cons.prems(8) by simp
  have u1: "isActive ?u1" "isEmailVerified ?u1" "password ?u1 = Some h"
    "accountLockedUntil ?u1 = None" "docId ?u1 = docId u"
    "failedLoginAttempts ?u1 = failedLoginAttempts u + 1"
    using Cons.prems small by (simp_all add: updateData_def)
  have b: "failedLoginAttempts ?u1 + int (length as) \<le> 4"
    using Cons.prems(8) u1(6) by simp
  have l: "list_all (\<lambda>r. snd r \<noteq> [] \<and> \<not> comparePassword (fst r) (snd r) h) as"
    using Cons.prems(9) by simp
  from Cons.IH [OF g1 Cons.prems(2) u1(1) u1(2) u1(3) Cons.prems(6) u1(4) b l]
  obtain u' where "getByEmail (users (login_attempts (snd (login ev w em pw)) em as)) em = Some u'"
    "isActive u'" "isEmailVerified u'" "password u' = Some h" "accountLockedUntil u' = None"
    "docId u' = docId ?u1"
    "failedLoginAttempts u' = failedLoginAttempts ?u1 + int (length as)"
    by blast
  then show ?case using r u1(5) u1(6) by simp
qed

text \<open>
  Claim C3, evaluated on the code. An account that can log in, with no failed attempts
  recorded and no lock, receives five wrong passwords in a row (the fifth at the time
  of \<open>ev5\<close>). Then the counter stands at 5 (the lock does not reset it) and
  \<open>accountLockedUntil\<close> is the time of the fifth failure plus 30 minutes, and any further
  login before that time, whatever the password, is answered 423 and changes nothing:
  so far as the claim says. But a login with the correct password at or after that time
  does not succeed: the update that is to reset the counter passes \<open>lastFailedLoginAt\<close>
  and \<open>accountLockedUntil\<close> as \<open>undefined\<close>, the store rejects it, and the handler
  answers 500, \<open>Failed to process login\<close>, leaving counter, lock and world as they were.
\<close>

theorem lockout_then_reset_fails:
  assumes "getByEmail (users w) em = Some u" and "em \<noteq> []"
    and "isActive u" and "isEmailVerified u" and "password u = Some h" and "h \<noteq> []"
    and "failedLoginAttempts u = 0" and "accountLockedUntil u = None"
    and "length as = 4"
    and "list_all (\<lambda>r. snd r \<noteq> [] \<and> \<not> comparePassword (fst r) (snd r) h) (as @ [(ev5, pw5)])"
    and "w5 = login_attempts w em (as @ [(ev5, pw5)])"
  shows "map_option failedLoginAttempts (getByEmail (users w5) em) = Some 5
       \<and> map_option accountLockedUntil (getByEmail (users w5) em) = Some (Some (now ev5 + 1800000))
       \<and> (pw6 \<noteq> [] \<and> now ev6 < now ev5 + 1800000 \<longrightarrow>
            login ev6 w5 em pw6 =
              (Inl (423, ''Account is temporarily locked due to multiple failed attempts''), w5))
       \<and> (pw7 \<noteq> [] \<and> now ev5 + 1800000 \<le> now ev7 \<and> comparePassword ev7 pw7 h \<longrightarrow>
            login ev7 w5 em pw7 = (Inl (500, ''Failed to process login''), w5))"
proof -
  let ?w4 = "login_attempts w em as"
  have l4: "list_all (\<lambda>r. snd r \<noteq> [] \<and> \<not> comparePassword (fst r) (snd r) h) as"
    and p5: "pw5 \<noteq> []" "\<not> comparePassword ev5 pw5 h"
    using assms(10) by simp_all
  have b: "failedLoginAttempts u + int (length as) \<le> 4" using assms(7) assms(9) by simp
  from login_attempts_failures [OF assms(1) assms(2) assms(3) assms(4) assms(5) assms(6)
      assms(8) b l4]
  obtain u4 where u4: "getByEmail (users ?w4) em = Some u4" "isActive u4" "isEmailVerified u4"
    "password u4 = Some h" "accountLockedUntil u4 = None" "docId u4 = docId u"
    "failedLoginAttempts u4 = 4"
    using assms(7) assms(9) by auto
  let ?u5 = "(fold setField (updateData ev5 (failedLoginAttempts u4 + 1)) u4)
               \<lparr>updatedAt := now ev5\<rparr>"
  have nl: "\<not> isLocked (accountLockedUntil u4) (now ev5)" using u4(5) by (simp add: isLocked_def)
  have w5: "w5 = snd (login ev5 ?w4 em pw5)"
    using assms(11) by (simp add: login_attempts_append)
  have g5: "getByEmail (users w5) em = Some ?u5"
    unfolding w5
    by (rule login_failed_step(2) [OF u4(1) assms(2) p5(1) u4(2) u4(3) u4(4) assms(6) nl p5(2)])
  have u5: "isActive ?u5" "isEmailVerified ?u5" "password ?u5 = Some h"
    "accountLockedUntil ?u5 = Some (now ev5 + 1800000)"
    "failedLoginAttempts ?u5 = 5"
    using u4 by (simp_all add: updateData_def)
  have c1: "map_option failedLoginAttempts (getByEmail (users w5) em) = Some 5"
    using g5 u5(5) by simp
  have c2: "map_option accountLockedUntil (getByEmail (users w5) em)
              = Some (Some (now ev5 + 1800000))"
    using g5 u5(4) by simp
  have c3: "login ev6 w5 em pw6 =
              (Inl (423, ''Account is temporarily locked due to multiple failed attempts''), w5)"
    if "pw6 \<noteq> []" "now ev6 < now ev5 + 1800000"
  proof -
    have "isLocked (accountLockedUntil ?u5) (now ev6)"
      using that(2) u5(4) by (simp add: isLocked_def)
    from login_locked [OF g5 assms(2) that(1) u5(1) u5(2) u5(3) assms(6) this]
    show ?thesis .
  qed
  have c4: "login ev7 w5 em pw7 = (Inl (500, ''Failed to process login''), w5)"
    if "pw7 \<noteq> []" "now ev5 + 1800000 \<le> now ev7" "comparePassword ev7 pw7 h"
  proof -
    have nl7: "\<not> isLocked (accountLockedUntil ?u5) (now ev7)"
      using that(2) u5(4) by (simp add: isLocked_def)
    have pos: "failedLoginAttempts ?u5 > 0" using u5(5) by simp
    from login_reset_fails [OF g5 assms(2) that(1) u5(1) u5(2) u5(3) assms(6) nl7 that(3) pos]
    show ?thesis .
  qed
  show ?thesis using c1 c2 c3 c4 by blast
qed

theorem lockout_then_reset_fails_witness:
  "map_option failedLoginAttempts (getByEmail (users lockedWorld) ''a@b.com'') = Some 5
   \<and> map_option accountLockedUntil (getByEmail (users lockedWorld) ''a@b.com'') = Some (Some 1805000)
   \<and> comparePassword (env_at 6000 True) ''longenough1'' ''#longenough1''
   \<and> login (env_at 6000 True) lockedWorld ''a@b.com'' ''longenough1'' =
       (Inl (423, ''Account is temporarily locked due to multiple failed attempts''), lockedWorld)
   \<and> comparePassword (env_at 1805000 True) ''longenough1'' ''#longenough1''
   \<and> login (env_at 1805000 True) lockedWorld ''a@b.com'' ''longenough1'' =
       (Inl (500, ''Failed to process login''), lockedWorld)"
proof -
  have g: "getByEmail (users (world_of ann)) ''a@b.com'' = Some ann"
    by (simp add: eval_defs)
  have e: "''a@b.com'' \<noteq> []" by simp
  have a: "isActive ann" "isEmailVerified ann" "password ann = Some ''#longenough1''"
    "failedLoginAttempts ann = 0" "accountLockedUntil ann = None"
    by (simp_all add: ann_def)
  have h: "''#longenough1'' \<noteq> []" by simp
  have n: "length wrongAttempts = 4" by (simp add: wrongAttempts_def)
  have l: "list_all (\<lambda>r. snd r \<noteq> [] \<and> \<not> comparePassword (fst r) (snd r) ''#longenough1'')
             (wrongAttempts @ [(env_at 5000 True, ''wrong5'')])"
    by (simp add: wrongAttempts_def env_at_def)
  have c: "comparePassword (env_at 6000 True) ''longenough1'' ''#longenough1''"
    "comparePassword (env_at 1805000 True) ''longenough1'' ''#longenough1''"
    "now (env_at 5000 True) + 1800000 = 1805000" "now (env_at 6000 True) < 1805000"
    "1805000 \<le> now (env_at 1805000 True)"
    "''longenough1'' \<noteq> []"
    by (simp_all add: env_at_def)
  note t = lockout_then_reset_fails [OF g e a(1) a(2) a(3) h a(4) a(5) n l lockedWorld_def,
      where ?pw6.0 = "''longenough1''" and ?ev6.0 = "env_at 6000 True"
        and ?pw7.0 = "''longenough1''" and ?ev7.0 = "env_at 1805000 True",
      unfolded c(3)]
  show ?thesis using t c by simp
qed

section \<open>Repeating a completed step\<close>

text \<open>
  Claim C4, as amended. \<open>verify_email\<close> on an account whose email is already verified
  fails with status 400 (\<open>Email already verified\<close>), and \<open>set_password\<close> on a verified
  account that already has a password fails with status 400 (\<open>Password already set\<close>);
  neither changes the world.
\<close>

theorem already_done_is_bad_request:
  "(em \<noteq> [] \<and> otp \<noteq> [] \<and> getByEmail (users w) em = Some u \<and> isEmailVerified u \<longrightarrow>
      verify_email ev w em otp = (Inl (400, ''Email already verified''), w))
   \<and> (em \<noteq> [] \<and> 8 \<le> length pw \<and> getByEmail (users w) em = Some u \<and> isEmailVerified u \<and>
       truthy (password u) \<longrightarrow>
      set_password ev w em pw = (Inl (400, ''Password already set''), w))"
  by (auto simp: verify_email_def set_password_def createError_def)

theorem already_done_is_bad_request_witness:
  "verify_email (env_at 1000 True) (world_of ann) ''a@b.com'' ''123456''
       = (Inl (400, ''Email already verified''), world_of ann)
   \<and> set_password (env_at 1000 True) (world_of ann) ''a@b.com'' ''longenough2''
       = (Inl (400, ''Password already set''), world_of ann)"
proof -
  have g: "getByEmail (users (world_of ann)) ''a@b.com'' = Some ann"
    by (simp add: eval_defs)
  have v: "isEmailVerified ann" and p: "truthy (password ann)"
    by (simp_all add: ann_def)
  show ?thesis
    using already_done_is_bad_request [where em = "''a@b.com''" and otp = "''123456''"
        and w = "world_of ann" and u = ann and pw = "''longenough2''" and ev = "env_at 1000 True"]
      g v p
    by simp
qed

text \<open>
  The claim as first stated fails: for a verified account with a password both calls
  answer status 400, not 409.
\<close>

theorem already_done_counterexample:
  "isEmailVerified ann \<and> truthy (password ann)
   \<and> verify_email (env_at 1000 True) (world_of ann) ''a@b.com'' ''123456''
       = (Inl (400, ''Email already verified''), world_of ann)
   \<and> set_password (env_at 1000 True) (world_of ann) ''a@b.com'' ''longenough2''
       = (Inl (400, ''Password already set''), world_of ann)"
  by (simp add: eval_defs verify_email_def set_password_def)

section \<open>Signup initiation\<close>

lemma signup_initiate_created:
  assumes "getByEmail (users w) em = None" and "em \<noteq> []" and "dn \<noteq> []" and "emailRegex_test em"
  shows "signup_initiate ev w em dn =
     (if \<not> mailDelivered ev
      then (Inl (500, ''Failed to send verification email''),
            w\<lparr>users := delete (create (users w) (newDocId ev) (newUser ev em dn) (now ev))
                         (newDocId ev)\<rparr>)
      else (Inr (MessageUser ''Verification OTP sent to your email'' (newDocId ev) em),
            \<lparr>users = create (users w) (newDocId ev) (newUser ev em dn) (now ev),
             outbox = outbox w @ [SignupOTPMail em (generateOTP ev)]\<rparr>))"
  using assms by (simp add: signup_initiate_def createError_def sendMail_def Let_def)

lemma signup_initiate_rejected:
  assumes "em = [] \<or> dn = [] \<or> \<not> emailRegex_test em"
  shows "isl (fst (signup_initiate ev w em dn))" and "snd (signup_initiate ev w em dn) = w"
  using assms by (auto simp: signup_initiate_def createError_def)

text \<open>
  Claim C5. Let no account exist for the email, and let the store assign an unused id.
  If the request is well-formed and the OTP mail is not delivered, the call fails with
  status 500 and the world is as before: the created account has been deleted. In
  general a failed call leaves the world unchanged (no account for the email), and a
  successful call leaves the pending account with its signup OTP, expiring ten minutes
  from now, and the OTP mail delivered.
\<close>

theorem signup_initiate_atomic:
  assumes "getByEmail (users w) em = None" and "newDocId ev \<notin> docId ` set (users w)"
  shows "(em \<noteq> [] \<and> dn \<noteq> [] \<and> emailRegex_test em \<and> \<not> mailDelivered ev \<longrightarrow>
            signup_initiate ev w em dn = (Inl (500, ''Failed to send verification email''), w))
       \<and> (isl (fst (signup_initiate ev w em dn)) \<longrightarrow> snd (signup_initiate ev w em dn) = w)
       \<and> (\<not> isl (fst (signup_initiate ev w em dn)) \<longrightarrow>
            fst (signup_initiate ev w em dn) =
              Inr (MessageUser ''Verification OTP sent to your email'' (newDocId ev) em) \<and>
            getByEmail (users (snd (signup_initiate ev w em dn))) em =
              Some ((newUser ev em dn)\<lparr>docId := newDocId ev, createdAt := now ev,
                                       updatedAt := now ev\<rparr>) \<and>
            map_option emailVerificationOTP
                (getByEmail (users (snd (signup_initiate ev w em dn))) em) =
              Some (Some (generateOTP ev)) \<and>
            map_option emailVerificationExpiresAt
                (getByEmail (users (snd (signup_initiate ev w em dn))) em) =
              Some (Some (now ev + 600000)) \<and>
            outbox (snd (signup_initiate ev w em dn)) =
              outbox w @ [SignupOTPMail em (generateOTP ev)])"
proof (cases "em = [] \<or> dn = [] \<or> \<not> emailRegex_test em")
  case True
  from signup_initiate_rejected [OF True] True show ?thesis by blast
next
  case False
  then have v: "em \<noteq> []" "dn \<noteq> []" "emailRegex_test em" by simp_all
  note c = signup_initiate_created [OF assms(1) v, of ev]
  have e: "email (newUser ev em dn) = em" by (simp add: newUser_def)
  have g: "getByEmail (create (users w) (newDocId ev) (newUser ev em dn) (now ev)) em =
         Some ((newUser ev em dn)\<lparr>docId := newDocId ev, createdAt := now ev,
                                  updatedAt := now ev\<rparr>)"
    using getByEmail_create [of "users w" "newUser ev em dn" "newDocId ev" "now ev"] assms(1) e
    by simp
  have d: "w\<lparr>users := delete (create (users w) (newDocId ev) (newUser ev em dn) (now ev))
                         (newDocId ev)\<rparr> = w"
    using delete_create_fresh [OF assms(2)] by simp
  show ?thesis
  proof (cases "mailDelivered ev")
    case True
    with c g show ?thesis by (simp add: newUser_def)
  next
    case False
    with c d show ?thesis by simp
  qed
qed

theorem signup_initiate_atomic_witness:
  "signup_initiate (env_at 0 False) emptyWorld ''a@b.com'' ''Ann'' =
      (Inl (500, ''Failed to send verification email''), emptyWorld)
   \<and> fst (signup_initiate (env_at 0 True) emptyWorld ''a@b.com'' ''Ann'') =
      Inr (MessageUser ''Verification OTP sent to your email'' ''u1'' ''a@b.com'')
   \<and> map_option emailVerificationOTP
        (getByEmail (users (snd (signup_initiate (env_at 0 True) emptyWorld ''a@b.com'' ''Ann'')))
           ''a@b.com'') = Some (Some ''123456'')
   \<and> map_option emailVerificationExpiresAt
        (getByEmail (users (snd (signup_initiate (env_at 0 True) emptyWorld ''a@b.com'' ''Ann'')))
           ''a@b.com'') = Some (Some 600000)
   \<and> outbox (snd (signup_initiate (env_at 0 True) emptyWorld ''a@b.com'' ''Ann'')) =
      [SignupOTPMail ''a@b.com'' ''123456'']"
proof -
  have g: "getByEmail (users emptyWorld) ''a@b.com'' = None"
    by (simp add: emptyWorld_def getByEmail_Nil)
  have f: "newDocId (env_at 0 False) \<notin> docId ` set (users emptyWorld)"
    "newDocId (env_at 0 True) \<notin> docId ` set (users emptyWorld)"
    by (simp_all add: emptyWorld_def)
  have r: "emailRegex_test ''a@b.com''"
    by (simp add: emailRegex_test_def isSpace_def)
  have m: "\<not> mailDelivered (env_at 0 False)" by (simp add: env_at_def)
  have s: "\<not> isl (fst (signup_initiate (env_at 0 True) emptyWorld ''a@b.com'' ''Ann''))"
    by (simp add: signup_initiate_def eval_defs r)
  have 1: "signup_initiate (env_at 0 False) emptyWorld ''a@b.com'' ''Ann'' =
      (Inl (500, ''Failed to send verification email''), emptyWorld)"
    using signup_initiate_atomic [OF g f(1), of "''Ann''"] r m by simp
  have 2: "fst (signup_initiate (env_at 0 True) emptyWorld ''a@b.com'' ''Ann'') =
      Inr (MessageUser ''Verification OTP sent to your email'' (newDocId (env_at 0 True)) ''a@b.com'')
    \<and> map_option emailVerificationOTP
        (getByEmail (users (snd (signup_initiate (env_at 0 True) emptyWorld ''a@b.com'' ''Ann'')))
           ''a@b.com'') = Some (Some (generateOTP (env_at 0 True)))
    \<and> map_option emailVerificationExpiresAt
        (getByEmail (users (snd (signup_initiate (env_at 0 True) emptyWorld ''a@b.com'' ''Ann'')))
           ''a@b.com'') = Some (Some (now (env_at 0 True) + 600000))
    \<and> outbox (snd (signup_initiate (env_at 0 True) emptyWorld ''a@b.com'' ''Ann'')) =
      outbox emptyWorld @ [SignupOTPMail ''a@b.com'' (generateOTP (env_at 0 True))]"
    using signup_initiate_atomic [OF g f(2), of "''Ann''"] s by blast
  have e: "newDocId (env_at 0 True) = ''u1''" "generateOTP (env_at 0 True) = ''123456''"
    "now (env_at 0 True) + 600000 = 600000" "outbox emptyWorld = []"
    by (simp_all add: env_at_def emptyWorld_def)
  show ?thesis using 1 2 unfolding e by simp
qed

section \<open>Purpose tokens\<close>

text \<open>
  Claim C7. A purpose token whose purpose is not password-reset, whatever its key,
  email and expiry, is rejected by \<open>set_new_password\<close> with status 400 and the world
  (so the account's password) is unchanged; with a new password of at least eight
  characters the message is \<open>Invalid or expired reset token\<close>.
\<close>

theorem wrong_purpose_rejected:
  "p \<noteq> PasswordReset \<Longrightarrow>
   set_new_password ev w (Some (Signed k \<lparr>claims = PurposeClaims em p, iat = i, exp = e\<rparr>))
       newPassword =
     (Inl (400, if newPassword = [] then ''Reset token and new password are required''
                else if length newPassword < 8
                then ''Password must be at least 8 characters long''
                else ''Invalid or expired reset token''), w)"
  by (cases p) (simp_all add: set_new_password_def createError_def verifyOTPToken_def jwt_verify_def)

theorem wrong_purpose_rejected_witness:
  "Login \<noteq> PasswordReset \<and>
   verifyOTPToken ''k'' 1000 (generateOTPToken ''k'' 0 ''a@b.com'' Login) =
     Some \<lparr>claims = PurposeClaims ''a@b.com'' Login, iat = 0, exp = 600\<rparr> \<and>
   set_new_password (env_at 1000 True) (world_of ann)
       (Some (generateOTPToken ''k'' 0 ''a@b.com'' Login)) ''newpassword1'' =
     (Inl (400, ''Invalid or expired reset token''), world_of ann)"
  using wrong_purpose_rejected [of Login "env_at 1000 True" "world_of ann" "''k''" "''a@b.com''"
      0 600 "''newpassword1''"]
  by (simp add: generateOTPToken_def jwt_sign_def OTP_EXPIRES_IN_def verifyOTPToken_def
      jwt_verify_def)

section \<open>Wrong login OTPs\<close>

lemma verify_login_otp_wrong:
  assumes "getByEmail (users w) em = Some u" and "loginOTP u \<noteq> Some otp"
  shows "snd (verify_login_otp ev w em otp) = w"
    and "isl (fst (verify_login_otp ev w em otp))"
    and "em \<noteq> [] \<Longrightarrow> otp \<noteq> [] \<Longrightarrow> isActive u \<Longrightarrow>
         fst (verify_login_otp ev w em otp) = Inl (400, ''Invalid OTP'')"
  using assms by (simp_all add: verify_login_otp_def createError_def)

lemma submit_login_otps_wrong:
  "getByEmail (users w) em = Some u \<Longrightarrow> list_all (\<lambda>r. loginOTP u \<noteq> Some (snd r)) reqs \<Longrightarrow>
   submit_login_otps w em reqs = w"
proof (induction reqs)
  case Nil
  then show ?case by simp
next
  case (Cons r reqs)
  obtain ev otp where r: "r = (ev, otp)" by (cases r)
  with Cons.prems have "loginOTP u \<noteq> Some otp" by simp
  then have "snd (verify_login_otp ev w em otp) = w"
    using verify_login_otp_wrong(1) [OF Cons.prems(1)] by simp
  with Cons r show ?case by simp
qed

text \<open>
  Claim C8. For an existing account, a login OTP submission whose code is not the
  stored one fails and leaves the world unchanged (status 400, \<open>Invalid OTP\<close>, for an
  active account and non-empty fields); and after any sequence of such submissions the
  world is still the same, so no counter is incremented, no lock is set and the stored
  login OTP stays.
\<close>

theorem wrong_login_otp_changes_nothing:
  assumes "getByEmail (users w) em = Some u"
  shows "(loginOTP u \<noteq> Some otp \<longrightarrow>
            snd (verify_login_otp ev w em otp) = w \<and> isl (fst (verify_login_otp ev w em otp)) \<and>
            (em \<noteq> [] \<and> otp \<noteq> [] \<and> isActive u \<longrightarrow>
               fst (verify_login_otp ev w em otp) = Inl (400, ''Invalid OTP'')))
       \<and> (list_all (\<lambda>r. loginOTP u \<noteq> Some (snd r)) reqs \<longrightarrow> submit_login_otps w em reqs = w)"
  using verify_login_otp_wrong [OF assms] submit_login_otps_wrong [OF assms] by blast

theorem wrong_login_otp_changes_nothing_witness:
  "verify_login_otp (env_at 1000 True) (world_of (ann\<lparr>loginOTP := Some ''123456'',
        loginOTPExpiresAt := Some 600000\<rparr>)) ''a@b.com'' ''000000''
     = (Inl (400, ''Invalid OTP''), world_of (ann\<lparr>loginOTP := Some ''123456'',
        loginOTPExpiresAt := Some 600000\<rparr>))
   \<and> submit_login_otps (world_of (ann\<lparr>loginOTP := Some ''123456'',
        loginOTPExpiresAt := Some 600000\<rparr>)) ''a@b.com''
        [(env_at 1000 True, ''000000''), (env_at 2000 True, ''111111''),
         (env_at 3000 True, ''222222''), (env_at 4000 True, ''333333''),
         (env_at 5000 True, ''444444''), (env_at 6000 True, ''555555'')]
     = world_of (ann\<lparr>loginOTP := Some ''123456'', loginOTPExpiresAt := Some 600000\<rparr>)"
proof -
  let ?u = "ann\<lparr>loginOTP := Some ''123456'', loginOTPExpiresAt := Some 600000\<rparr>"
  let ?reqs = "[(env_at 1000 True, ''000000''), (env_at 2000 True, ''111111''),
         (env_at 3000 True, ''222222''), (env_at 4000 True, ''333333''),
         (env_at 5000 True, ''444444''), (env_at 6000 True, ''555555'')]"
  have g: "getByEmail (users (world_of ?u)) ''a@b.com'' = Some ?u"
    by (simp add: eval_defs)
  have a: "isActive ?u" by (simp add: ann_def)
  have o: "loginOTP ?u \<noteq> Some ''000000''" by simp
  have l: "list_all (\<lambda>r. loginOTP ?u \<noteq> Some (snd r)) ?reqs" by simp
  note t = wrong_login_otp_changes_nothing [OF g, of "''000000''" "env_at 1000 True" ?reqs]
  have 1: "snd (verify_login_otp (env_at 1000 True) (world_of ?u) ''a@b.com'' ''000000'')
             = world_of ?u
           \<and> fst (verify_login_otp (env_at 1000 True) (world_of ?u) ''a@b.com'' ''000000'')
             = Inl (400, ''Invalid OTP'')"
    using t a o by blast
  have 2: "submit_login_otps (world_of ?u) ''a@b.com'' ?reqs = world_of ?u"
    using t l by blast
  show ?thesis using 1 2 by (simp add: prod_eq_iff del: submit_login_otps.simps)
qed

section \<open>The identity attached by \<open>authenticateUser\<close>\<close>

lemma authenticateUser_Inr:
  "authenticateUser ev db h = Inr ident \<Longrightarrow>
   (\<exists>tok p. h = Some (Bearer tok) \<and> verifyToken (JWT_SECRET ev) (now ev) tok = Some p \<and>
            claims p = SessionClaims ident) \<and>
   (\<exists>u. getById db (userId ident) = Some u \<and> isActive u)"
  by (auto simp: authenticateUser_def createError_def
      split: option.splits header.splits if_splits claims.splits)

lemma authenticateUser_valid:
  "verifyToken (JWT_SECRET ev) (now ev) tok = Some p \<Longrightarrow> \<not> isTokenExpired (now ev) tok \<Longrightarrow>
   claims p = SessionClaims ident \<Longrightarrow> userId ident \<noteq> [] \<Longrightarrow>
   authenticateUser ev db (Some (Bearer tok)) =
     (case map_option isActive (getById db (userId ident)) of
        None \<Rightarrow> Inl (404, ''User not found'')
      | Some a \<Rightarrow> if a then Inr ident else Inl (403, ''User account is inactive''))"
  by (auto simp: authenticateUser_def createError_def split: option.splits)

lemma authenticateUser_via_isActive:
  "authenticateUser ev db authHeader =
     (case authHeader of
        None \<Rightarrow> Inl (401, ''No token provided'')
      | Some NotBearer \<Rightarrow> Inl (401, ''No token provided'')
      | Some BearerEmpty \<Rightarrow> Inl (401, ''Invalid token format'')
      | Some (Bearer tok) \<Rightarrow>
          (case verifyToken (JWT_SECRET ev) (now ev) tok of
            None \<Rightarrow> Inl (401, ''Invalid or expired token'')
          | Some decodedToken \<Rightarrow>
              if isTokenExpired (now ev) tok then Inl (401, ''Token has expired'')
              else (case claims decodedToken of
                PurposeClaims em p \<Rightarrow> Inl (401, ''Authentication failed'')
              | SessionClaims ident \<Rightarrow>
                  if userId ident = [] then Inl (401, ''Authentication failed'')
                  else (case map_option isActive (getById db (userId ident)) of
                    None \<Rightarrow> Inl (404, ''User not found'')
                  | Some a \<Rightarrow> if a then Inr ident else Inl (403, ''User account is inactive'')))))"
  by (auto simp: authenticateUser_def createError_def
      split: option.splits header.splits claims.splits)

lemma authenticateUser_store:
  assumes "\<forall>i. map_option isActive (getById db' i) = map_option isActive (getById db i)"
  shows "authenticateUser ev db' h = authenticateUser ev db h"
proof -
  have e: "\<And>i. map_option isActive (getById db' i) = map_option isActive (getById db i)"
    using assms by blast
  show ?thesis by (simp only: authenticateUser_via_isActive e)
qed

lemma authenticateUser_role_plan:
  "authenticateUser ev (map (\<lambda>u. u\<lparr>role := fr u, subscriptionPlan := fp u\<rparr>) db) h =
   authenticateUser ev db h"
proof -
  have "getById (map (\<lambda>u. u\<lparr>role := fr u, subscriptionPlan := fp u\<rparr>) db) i =
        map_option (\<lambda>u. u\<lparr>role := fr u, subscriptionPlan := fp u\<rparr>) (getById db i)" for i
    by (rule getById_map) simp
  then show ?thesis
    by (auto simp: authenticateUser_def split: option.splits header.splits claims.splits)
qed

text \<open>
  Claim C9. When \<open>authenticateUser\<close> succeeds, the identity it attaches is the one in
  the verified token's claims, and the account with the token's id exists and is
  active. For a verified, unexpired session token the result is decided by the token's
  claims and by whether that account exists and whether it is active: 404 when it does
  not exist, 403 when it is inactive, the token's identity otherwise. So two stores
  that agree, for every id, on existence and on \<open>isActive\<close> give the same result for
  every header; in particular changing the role and plan of the stored accounts in any
  way does not change the result.
\<close>

theorem authenticate_identity_from_token:
  "(authenticateUser ev db h = Inr ident \<longrightarrow>
      (\<exists>tok p. h = Some (Bearer tok) \<and> verifyToken (JWT_SECRET ev) (now ev) tok = Some p \<and>
              claims p = SessionClaims ident) \<and>
      (\<exists>u. getById db (userId ident) = Some u \<and> isActive u))
   \<and> (verifyToken (JWT_SECRET ev) (now ev) t = Some q \<and> \<not> isTokenExpired (now ev) t \<and>
       claims q = SessionClaims idt \<and> userId idt \<noteq> [] \<longrightarrow>
      authenticateUser ev db (Some (Bearer t)) =
        (case map_option isActive (getById db (userId idt)) of
           None \<Rightarrow> Inl (404, ''User not found'')
         | Some a \<Rightarrow> if a then Inr idt else Inl (403, ''User account is inactive'')))
   \<and> ((\<forall>i. map_option isActive (getById db' i) = map_option isActive (getById db i)) \<longrightarrow>
      authenticateUser ev db' h = authenticateUser ev db h)
   \<and> authenticateUser ev (map (\<lambda>u. u\<lparr>role := fr u, subscriptionPlan := fp u\<rparr>) db) h =
     authenticateUser ev db h"
  using authenticateUser_Inr [of ev db h ident]
    authenticateUser_valid [of ev t q idt db]
    authenticateUser_store [of db' db ev h]
    authenticateUser_role_plan [where ev = ev and fr = fr and fp = fp and db = db and h = h]
  by blast

theorem authenticate_identity_from_token_witness:
  "authenticateUser (env_at 1000 True) [ann]
      (Some (Bearer (generateToken ''k'' 0
         \<lparr>userId = ''u1'', idEmail = ''a@b.com'', idRole = UserRole, idPlan = Free\<rparr>)))
     = Inr \<lparr>userId = ''u1'', idEmail = ''a@b.com'', idRole = UserRole, idPlan = Free\<rparr>
   \<and> authenticateUser (env_at 1000 True) [ann\<lparr>role := Admin, subscriptionPlan := Enterprise\<rparr>]
      (Some (Bearer (generateToken ''k'' 0
         \<lparr>userId = ''u1'', idEmail = ''a@b.com'', idRole = UserRole, idPlan = Free\<rparr>)))
     = Inr \<lparr>userId = ''u1'', idEmail = ''a@b.com'', idRole = UserRole, idPlan = Free\<rparr>
   \<and> authenticateUser (env_at 1000 True)
        [ann\<lparr>email := ''x@y.z'', displayName := ''Bob'', isEmailVerified := False\<rparr>]
      (Some (Bearer (generateToken ''k'' 0
         \<lparr>userId = ''u1'', idEmail = ''a@b.com'', idRole = UserRole, idPlan = Free\<rparr>)))
     = Inr \<lparr>userId = ''u1'', idEmail = ''a@b.com'', idRole = UserRole, idPlan = Free\<rparr>
   \<and> authenticateUser (env_at 1000 True) [ann\<lparr>isActive := False\<rparr>]
      (Some (Bearer (generateToken ''k'' 0
         \<lparr>userId = ''u1'', idEmail = ''a@b.com'', idRole = UserRole, idPlan = Free\<rparr>)))
     = Inl (403, ''User account is inactive'')
   \<and> authenticateUser (env_at 1000 True) []
      (Some (Bearer (generateToken ''k'' 0
         \<lparr>userId = ''u1'', idEmail = ''a@b.com'', idRole = UserRole, idPlan = Free\<rparr>)))
     = Inl (404, ''User not found'')
   \<and> (\<exists>u. getById [ann] ''u1'' = Some u \<and> isActive u)"
proof -
  let ?i = "\<lparr>userId = ''u1'', idEmail = ''a@b.com'', idRole = UserRole, idPlan = Free\<rparr>"
  let ?t = "generateToken ''k'' 0 ?i"
  let ?q = "\<lparr>claims = SessionClaims ?i, iat = 0, exp = 604800\<rparr>"
  let ?bob = "ann\<lparr>email := ''x@y.z'', displayName := ''Bob'', isEmailVerified := False\<rparr>"
  have v: "verifyToken (JWT_SECRET (env_at 1000 True)) (now (env_at 1000 True)) ?t = Some ?q"
    "\<not> isTokenExpired (now (env_at 1000 True)) ?t" "claims ?q = SessionClaims ?i"
    "userId ?i \<noteq> []"
    by (simp_all add: env_at_def generateToken_def jwt_sign_def verifyToken_def jwt_verify_def
        isTokenExpired_def jwt_decode_def JWT_EXPIRES_IN_def)
  have s: "\<forall>i. map_option isActive (getById [?bob] i) = map_option isActive (getById [ann] i)"
    by (simp add: getById_def ann_def)
  have g: "getById [ann] ''u1'' = Some ann" "isActive ann"
    "getById [ann\<lparr>isActive := False\<rparr>] ''u1'' = Some (ann\<lparr>isActive := False\<rparr>)"
    "getById [] ''u1'' = None"
    by (simp_all add: getById_def ann_def)
  have a: "authenticateUser (env_at 1000 True) [ann] (Some (Bearer ?t)) = Inr ?i"
    using authenticate_identity_from_token [where ev = "env_at 1000 True" and db = "[ann]"
        and t = ?t and q = ?q and idt = ?i] v g(1) g(2)
    by simp
  have b: "authenticateUser (env_at 1000 True)
             [ann\<lparr>role := Admin, subscriptionPlan := Enterprise\<rparr>] (Some (Bearer ?t)) = Inr ?i"
    using authenticate_identity_from_token [where ev = "env_at 1000 True" and db = "[ann]"
        and h = "Some (Bearer ?t)" and fr = "\<lambda>u. Admin" and fp = "\<lambda>u. Enterprise"] a
    by simp
  have c: "authenticateUser (env_at 1000 True) [?bob] (Some (Bearer ?t)) = Inr ?i"
    using authenticate_identity_from_token [where ev = "env_at 1000 True" and db = "[ann]"
        and db' = "[?bob]" and h = "Some (Bearer ?t)"] s a
    by simp
  have d: "authenticateUser (env_at 1000 True) [ann\<lparr>isActive := False\<rparr>] (Some (Bearer ?t))
             = Inl (403, ''User account is inactive'')"
    using authenticate_identity_from_token [where ev = "env_at 1000 True"
        and db = "[ann\<lparr>isActive := False\<rparr>]" and t = ?t and q = ?q and idt = ?i] v g(3)
    by simp
  have e: "authenticateUser (env_at 1000 True) [] (Some (Bearer ?t)) = Inl (404, ''User not found'')"
    using authenticate_identity_from_token [where ev = "env_at 1000 True"
        and db = "[]" and t = ?t and q = ?q and idt = ?i] v g(4)
    by simp
  have f: "\<exists>u. getById [ann] ''u1'' = Some u \<and> isActive u"
    using authenticate_identity_from_token [where ev = "env_at 1000 True" and db = "[ann]"
        and h = "Some (Bearer ?t)" and ident = ?i] a
    by simp
  show ?thesis using a b c d e f by blast
qed

section \<open>Completing a password reset\<close>

text \<open>
  Claim C10, evaluated on the code. \<open>set_new_password\<close> passes \<open>passwordResetOTP\<close> and
  \<open>passwordResetExpiresAt\<close> as \<open>undefined\<close> in the update that is to store the new hash,
  so the store rejects the write. Every call therefore fails and leaves the world
  unchanged. In particular, with a verified password-reset token, an existing active
  account and a new password of at least eight characters the call answers 500,
  \<open>Failed to reset password\<close>, and the stored password stays, on the first call and on
  every later one.
\<close>

theorem set_new_password_fails:
  "isl (fst (set_new_password ev w resetToken newPassword))
   \<and> snd (set_new_password ev w resetToken newPassword) = w
   \<and> (verifyOTPToken (JWT_SECRET ev) (now ev) tok = Some p \<and>
       claims p = PurposeClaims em PasswordReset \<and>
       getByEmail (users w) em = Some u \<and> isActive u \<and> 8 \<le> length pw \<longrightarrow>
      set_new_password ev w (Some tok) pw = (Inl (500, ''Failed to reset password''), w))"
proof (intro conjI impI)
  show "isl (fst (set_new_password ev w resetToken newPassword))"
    by (auto simp: set_new_password_def createError_def update_def split: option.splits)
  show "snd (set_new_password ev w resetToken newPassword) = w"
    by (auto simp: set_new_password_def createError_def update_def split: option.splits)
  assume a: "verifyOTPToken (JWT_SECRET ev) (now ev) tok = Some p \<and>
       claims p = PurposeClaims em PasswordReset \<and>
       getByEmail (users w) em = Some u \<and> isActive u \<and> 8 \<le> length pw"
  then have "pw \<noteq> []" by auto
  with a show "set_new_password ev w (Some tok) pw = (Inl (500, ''Failed to reset password''), w)"
    by (simp add: set_new_password_def update_def)
qed

theorem set_new_password_fails_witness:
  "verifyOTPToken ''k'' 1000 (generateOTPToken ''k'' 0 ''a@b.com'' PasswordReset) =
     Some \<lparr>claims = PurposeClaims ''a@b.com'' PasswordReset, iat = 0, exp = 600\<rparr>
   \<and> set_new_password (env_at 1000 True) (world_of ann)
       (Some (generateOTPToken ''k'' 0 ''a@b.com'' PasswordReset)) ''firstpassword'' =
     (Inl (500, ''Failed to reset password''), world_of ann)
   \<and> set_new_password (env_at 2000 True) (world_of ann)
       (Some (generateOTPToken ''k'' 0 ''a@b.com'' PasswordReset)) ''secondpassword'' =
     (Inl (500, ''Failed to reset password''), world_of ann)
   \<and> map_option password (getByEmail (users (world_of ann)) ''a@b.com'') =
     Some (Some ''#longenough1'')"
proof -
  let ?t = "generateOTPToken ''k'' 0 ''a@b.com'' PasswordReset"
  let ?p = "\<lparr>claims = PurposeClaims ''a@b.com'' PasswordReset, iat = 0, exp = 600\<rparr>"
  have v: "verifyOTPToken ''k'' 1000 ?t = Some ?p" "verifyOTPToken ''k'' 2000 ?t = Some ?p"
    by (simp_all add: generateOTPToken_def jwt_sign_def OTP_EXPIRES_IN_def verifyOTPToken_def
        jwt_verify_def)
  have e: "JWT_SECRET (env_at 1000 True) = ''k''" "now (env_at 1000 True) = 1000"
    "JWT_SECRET (env_at 2000 True) = ''k''" "now (env_at 2000 True) = 2000"
    by (simp_all add: env_at_def)
  have g: "getByEmail (users (world_of ann)) ''a@b.com'' = Some ann"
    by (simp add: eval_defs)
  have a: "isActive ann" "password ann = Some ''#longenough1''" by (simp_all add: ann_def)
  have 1: "set_new_password (env_at 1000 True) (world_of ann) (Some ?t) ''firstpassword'' =
             (Inl (500, ''Failed to reset password''), world_of ann)"
    using set_new_password_fails [where ev = "env_at 1000 True" and w = "world_of ann"
        and tok = ?t and p = ?p and em = "''a@b.com''" and u = ann and pw = "''firstpassword''"]
      v(1) e g a(1)
    by simp
  have 2: "set_new_password (env_at 2000 True) (world_of ann) (Some ?t) ''secondpassword'' =
             (Inl (500, ''Failed to reset password''), world_of ann)"
    using set_new_password_fails [where ev = "env_at 2000 True" and w = "world_of ann"
        and tok = ?t and p = ?p and em = "''a@b.com''" and u = ann and pw = "''secondpassword''"]
      v(2) e g a(1)
    by simp
  show ?thesis using 1 2 v(1) g a(2) by simp
qed

end
